theory Spec2Isabelle
  imports Complex_Main "HOL-Library.AList"
begin

section \<open>Values and JavaScript coercions\<close>

text \<open>
  The attribute synchroniser of the air conditioner (class \<open>MideaACDevice\<close>) stores and
  forwards values of type \<open>any\<close>: booleans, numbers, strings and \<open>undefined\<close>.
  Numbers are modelled as rationals (every integer and half-degree value is exact); NaN
  appears only as the result of a failed coercion, as \<open>None\<close> of \<open>to_number\<close>.
\<close>

datatype val = VUndef | VBool bool | VNum rat | VStr string

text \<open>Truthiness, as tested by \<open>if (x)\<close> and \<open>!x\<close>.\<close>

fun truthy :: "val \<Rightarrow> bool" where
  "truthy VUndef = False"
| "truthy (VBool b) = b"
| "truthy (VNum n) = (n \<noteq> 0)"
| "truthy (VStr s) = (s \<noteq> [])"

text \<open>
  \<open>ToNumber\<close>. The conversion of a string is the language's own and is taken as the
  parameter \<open>sn\<close> (\<open>None\<close> is NaN).
\<close>

fun to_number :: "(string \<Rightarrow> rat option) \<Rightarrow> val \<Rightarrow> rat option" where
  "to_number sn VUndef = None"
| "to_number sn (VBool b) = Some (if b then 1 else 0)"
| "to_number sn (VNum n) = Some n"
| "to_number sn (VStr s) = sn s"

text \<open>\<open>a > n\<close> for a number \<open>n\<close>: false when \<open>a\<close> converts to NaN.\<close>

definition js_gt :: "(string \<Rightarrow> rat option) \<Rightarrow> val \<Rightarrow> rat \<Rightarrow> bool" where
  "js_gt sn a n = (case to_number sn a of None \<Rightarrow> False | Some x \<Rightarrow> x > n)"

text \<open>\<open>String.prototype.toLowerCase\<close> on ASCII names.\<close>

definition char_to_lower :: "char \<Rightarrow> char" where
  "char_to_lower c =
     (case map_of (zip ''ABCDEFGHIJKLMNOPQRSTUVWXYZ'' ''abcdefghijklmnopqrstuvwxyz'') c of
        None \<Rightarrow> c | Some l \<Rightarrow> l)"

definition toLowerCase :: "string \<Rightarrow> string" where
  "toLowerCase s = map char_to_lower s"

section \<open>Objects with string keys\<close>

text \<open>
  \<open>this.attributes\<close>, the change-set \<open>new_status\<close> and the argument of \<open>set_attribute\<close>
  are objects with string keys: association lists in insertion order. Reading a missing
  key gives \<open>undefined\<close>; writing replaces the value in place or appends the key
  (\<open>AList.update\<close>). \<open>Object.keys\<close> is \<open>map fst\<close>.
\<close>

type_synonym attrs = "(string \<times> val) list"

definition attr :: "attrs \<Rightarrow> string \<Rightarrow> val" where
  "attr a k = (case map_of a k of None \<Rightarrow> VUndef | Some v \<Rightarrow> v)"

text \<open>
  The two tables have integer keys. An object literal is given in its written order;
  \<open>Object.keys\<close>, \<open>Object.values\<close> and \<open>Object.entries\<close> enumerate integer keys in
  ascending numeric order, whatever the written order (ECMAScript
  OrdinaryOwnPropertyKeys). \<open>Number.parseInt\<close> of such a key is the integer itself.
\<close>

definition FRESH_AIR_FAN_SPEEDS :: "(nat \<times> string) list" where
  "FRESH_AIR_FAN_SPEEDS =
     [(0, ''Off''), (20, ''Silent''), (40, ''Low''), (60, ''Medium''), (80, ''High''),
      (100, ''Full'')]"

definition FRESH_AIR_FAN_SPEEDS_REVERSE :: "(nat \<times> string) list" where
  "FRESH_AIR_FAN_SPEEDS_REVERSE =
     [(100, ''Full''), (80, ''High''), (60, ''Medium''), (40, ''Low''), (20, ''Silent''),
      (0, ''Off'')]"

definition Object_entries :: "(nat \<times> string) list \<Rightarrow> (nat \<times> string) list" where
  "Object_entries tbl = sort_key fst tbl"

section \<open>The device and the decoded response\<close>

record device =
  version :: nat
  attributes :: attrs
  fresh_air_version :: "nat option"
  used_subprotocol :: bool
  bb_sn8_flag :: val
  bb_timer :: val

text \<open>The attribute object built by the constructor, in its key order.\<close>

definition initial_attributes :: attrs where
  "initial_attributes =
     [(''PROMPT_TONE'', VBool False), (''POWER'', VBool False), (''MODE'', VNum 0),
      (''TARGET_TEMPERATURE'', VNum 24), (''FAN_SPEED'', VNum 102),
      (''SWING_VERTICAL'', VBool False), (''SWING_HORIZONTAL'', VBool False),
      (''SMART_EYE'', VBool False), (''DRY'', VBool False), (''AUX_HEATING'', VBool False),
      (''BOOST_MODE'', VBool False), (''SLEEP_MODE'', VBool False),
      (''FROST_PROTECT'', VBool False), (''COMFORT_MODE'', VBool False),
      (''ECO_MODE'', VBool False), (''NATURAL_WIND'', VBool False),
      (''TEMP_FAHRENHEIT'', VBool False), (''SCREEN_DISPLAY'', VBool False),
      (''SCREEN_DISPLAY_NEW'', VBool False), (''FULL_DUST'', VBool False),
      (''INDIRECT_WIND'', VBool False), (''BREEZELESS'', VBool False),
      (''REALTIME_POWER'', VNum 0), (''FRESH_AIR_POWER'', VBool False),
      (''FRESH_AIR_FAN_SPEED'', VNum 0), (''FRESH_AIR_1'', VBool False),
      (''FRESH_AIR_2'', VBool False)]"

definition initial_device :: "nat \<Rightarrow> device" where
  "initial_device ver =
     \<lparr>version = ver, attributes = initial_attributes, fresh_air_version = None,
      used_subprotocol = False, bb_sn8_flag = VBool False, bb_timer = VBool False\<rparr>"

text \<open>
  \<open>MessageACResponse\<close> is declared in another module. The synchroniser reads its flag
  \<open>used_subprotocol\<close> and its fields by name; a field the response does not carry reads
  as \<open>undefined\<close>.
\<close>

record response =
  resp_used_subprotocol :: bool
  body :: "string \<rightharpoonup> val"

definition get_body_attribute :: "response \<Rightarrow> string \<Rightarrow> val" where
  "get_body_attribute message name =
     (case body message name of None \<Rightarrow> VUndef | Some v \<Rightarrow> v)"

section \<open>\<open>process_message\<close>\<close>

text \<open>The sub-protocol marker and its two flags.\<close>

definition note_subprotocol :: "response \<Rightarrow> device \<Rightarrow> device" where
  "note_subprotocol message d =
     (if resp_used_subprotocol message
      then d\<lparr>used_subprotocol := True,
             bb_sn8_flag := (if truthy (get_body_attribute message ''sn8_flag'')
                             then get_body_attribute message ''sn8_flag'' else bb_sn8_flag d),
             bb_timer := (if truthy (get_body_attribute message ''timer'')
                          then get_body_attribute message ''timer'' else bb_timer d)\<rparr>
      else d)"

text \<open>
  The loop over \<open>Object.keys(this.attributes)\<close>. The state is the attribute object, the
  change-set and \<open>has_fresh_air\<close>.
\<close>

fun merge_status :: "response \<Rightarrow> string list \<Rightarrow> attrs \<times> attrs \<times> bool \<Rightarrow> attrs \<times> attrs \<times> bool"
  where
  "merge_status message [] st = st"
| "merge_status message (status # rest) (a, new_status, has_fresh_air) =
     (if truthy (get_body_attribute message status)
      then merge_status message rest
             (AList.update status (get_body_attribute message status) a,
              AList.update status (get_body_attribute message status) new_status,
              has_fresh_air \<or> status = ''FRESH_AIR_POWER'')
      else merge_status message rest (a, new_status, has_fresh_air))"

text \<open>
  The loop over the entries of the threshold table: it stops at the first key that the
  stored speed exceeds and otherwise stores the entry's name.
\<close>

fun fresh_air_scan :: "(string \<Rightarrow> rat option) \<Rightarrow> (nat \<times> string) list \<Rightarrow> attrs \<Rightarrow> attrs" where
  "fresh_air_scan sn [] a = a"
| "fresh_air_scan sn ((k, v) # rest) a =
     (if js_gt sn (attr a ''FRESH_AIR_FAN_SPEED'') (of_nat k) then a
      else fresh_air_scan sn rest (AList.update ''FRESH_AIR_MODE'' (VStr v) a))"

definition derive_fresh_air_mode ::
  "(string \<Rightarrow> rat option) \<Rightarrow> attrs \<times> attrs \<times> bool \<Rightarrow> attrs \<times> attrs" where
  "derive_fresh_air_mode sn st =
     (case st of (a, new_status, has_fresh_air) \<Rightarrow>
        if has_fresh_air
        then (let a' = (if truthy (attr a ''FRESH_AIR_POWER'')
                        then fresh_air_scan sn (Object_entries FRESH_AIR_FAN_SPEEDS_REVERSE) a
                        else AList.update ''FRESH_AIR_MODE'' (VStr ''Off'') a)
              in (a', AList.update ''FRESH_AIR_MODE'' (attr a' ''FRESH_AIR_MODE'') new_status))
        else (a, new_status))"

definition force_indirect_wind :: "attrs \<times> attrs \<Rightarrow> attrs \<times> attrs" where
  "force_indirect_wind st =
     (case st of (a, new_status) \<Rightarrow>
        if \<not> truthy (attr a ''POWER'')
           \<or> (''SWING_VERTICAL'' \<in> set (map fst new_status) \<and> truthy (attr a ''SWING_VERTICAL''))
        then (AList.update ''INDIRECT_WIND'' (VBool False) a,
              AList.update ''INDIRECT_WIND'' (VBool False) new_status)
        else (a, new_status))"

definition force_screen_display :: "attrs \<times> attrs \<Rightarrow> attrs \<times> attrs" where
  "force_screen_display st =
     (case st of (a, new_status) \<Rightarrow>
        if \<not> truthy (attr a ''POWER'')
        then (AList.update ''SCREEN_DISPLAY'' (VBool False) a,
              AList.update ''SCREEN_DISPLAY'' (VBool False) new_status)
        else (a, new_status))"

definition learn_fresh_air_version :: "attrs \<Rightarrow> nat option \<Rightarrow> nat option" where
  "learn_fresh_air_version a old =
     (if truthy (attr a ''FRESH_AIR_1'') then Some 1
      else if truthy (attr a ''FRESH_AIR_2'') then Some 2
      else old)"

text \<open>\<open>process_message\<close> returns the change-set; the device is returned updated.\<close>

definition process_message ::
  "(string \<Rightarrow> rat option) \<Rightarrow> response \<Rightarrow> device \<Rightarrow> attrs \<times> device" where
  "process_message sn message d =
     (let d1 = note_subprotocol message d;
          st = force_screen_display (force_indirect_wind (derive_fresh_air_mode sn
                 (merge_status message (map fst (attributes d1)) (attributes d1, [], False))))
      in (snd st,
          d1\<lparr>attributes := fst st,
             fresh_air_version := learn_fresh_air_version (fst st) (fresh_air_version d1)\<rparr>))"

section \<open>Outbound commands\<close>

text \<open>
  The command classes are declared in another module. A command is its class, the
  protocol version it was constructed with and the properties this code assigns to it,
  in assignment order. The fresh-air property is keyed by the version number and holds a
  pair.
\<close>

datatype kind =
    MessageGeneralSet | MessageSubProtocolSet | MessageNewProtocolSet | MessageSwitchDisplay
  | MessageQuery | MessageNewProtocolQuery | MessagePowerQuery | MessageSubProtocolQuery nat

datatype pkey = Name string | Index nat

datatype pvalue = Scalar val | Tuple val val

record message =
  kind :: kind
  proto_version :: nat
  props :: "(pkey \<times> pvalue) list"

definition new_message :: "kind \<Rightarrow> nat \<Rightarrow> message" where
  "new_message c ver = \<lparr>kind = c, proto_version = ver, props = []\<rparr>"

definition set_prop :: "pkey \<Rightarrow> pvalue \<Rightarrow> message \<Rightarrow> message" where
  "set_prop k f m = m\<lparr>props := AList.update k f (props m)\<rparr>"

definition get_prop :: "message \<Rightarrow> pkey \<Rightarrow> pvalue option" where
  "get_prop m k = map_of (props m) k"


definition make_message_set :: "device \<Rightarrow> message" where
  "make_message_set d =
     (let a = attributes d in
      \<lparr>kind = MessageGeneralSet, proto_version = version d,
       props =
         [(Name ''power'', Scalar (attr a ''POWER'')),
          (Name ''prompt_tone'', Scalar (attr a ''PROMPT_TONE'')),
          (Name ''mode'', Scalar (attr a ''MODE'')),
          (Name ''target_temperature'', Scalar (attr a ''TARGET_TEMPERATURE'')),
          (Name ''fan_speed'', Scalar (attr a ''FAN_SPEED'')),
          (Name ''swing_vertical'', Scalar (attr a ''SWING_VERTICAL'')),
          (Name ''swing_horizontal'', Scalar (attr a ''SWING_HORIZONTAL'')),
          (Name ''boost_mode'', Scalar (attr a ''BOOST_MODE'')),
          (Name ''smart_eye'', Scalar (attr a ''SMART_EYE'')),
          (Name ''dry'', Scalar (attr a ''DRY'')),
          (Name ''eco_mode'', Scalar (attr a ''ECO_MODE'')),
          (Name ''aux_heating'', Scalar (attr a ''AUX_HEATING'')),
          (Name ''sleep_mode'', Scalar (attr a ''SLEEP_MODE'')),
          (Name ''frost_protect'', Scalar (attr a ''FROST_PROTECT'')),
          (Name ''comfort_mode'', Scalar (attr a ''COMFORT_MODE'')),
          (Name ''natural_wind'', Scalar (attr a ''NATURAL_WIND'')),
          (Name ''temp_fahrenheit'', Scalar (attr a ''TEMP_FAHRENHEIT''))]\<rparr>)"

definition make_subprotocol_message_set :: "device \<Rightarrow> message" where
  "make_subprotocol_message_set d =
     (let a = attributes d in
      \<lparr>kind = MessageSubProtocolSet, proto_version = version d,
       props =
         [(Name ''power'', Scalar (attr a ''POWER'')),
          (Name ''prompt_tone'', Scalar (attr a ''PROMPT_TONE'')),
          (Name ''aux_heating'', Scalar (attr a ''AUX_HEATING'')),
          (Name ''mode'', Scalar (attr a ''MODE'')),
          (Name ''target_temperature'', Scalar (attr a ''TARGET_TEMPERATURE'')),
          (Name ''fan_speed'', Scalar (attr a ''FAN_SPEED'')),
          (Name ''boost_mode'', Scalar (attr a ''BOOST_MODE'')),
          (Name ''dry'', Scalar (attr a ''DRY'')),
          (Name ''eco_mode'', Scalar (attr a ''ECO_MODE'')),
          (Name ''sleep_mode'', Scalar (attr a ''SLEEP_MODE'')),
          (Name ''sn8_flag'', Scalar (bb_sn8_flag d)),
          (Name ''timer'', Scalar (bb_timer d))]\<rparr>)"

definition make_message_unique_set :: "device \<Rightarrow> message" where
  "make_message_unique_set d =
     (if used_subprotocol d then make_subprotocol_message_set d else make_message_set d)"

section \<open>\<open>set_attribute\<close>\<close>

definition sensor_names :: "string list" where
  "sensor_names =
     [''INDOOR_TEMPERATURE'', ''OUTDOOR_TEMPERATURE'', ''INDOOR_HUMIDITY'', ''FULL_DUST'',
      ''TOTAL_ENERGY_CONSUMPTION'', ''CURRENT_ENERGY_CONSUMPTION'', ''REALTIME_POWER'']"

definition mode_group :: "string list" where
  "mode_group = [''BOOST_MODE'', ''SLEEP_MODE'', ''FROST_PROTECT'', ''COMFORT_MODE'', ''ECO_MODE'']"

text \<open>\<open>if (this.fresh_air_version)\<close>: the version is known and not zero.\<close>

definition version_known :: "device \<Rightarrow> bool" where
  "version_known d = (case fresh_air_version d of None \<Rightarrow> False | Some n \<Rightarrow> n \<noteq> 0)"

text \<open>\<open>message[this.fresh_air_version] = [on, speed]\<close>.\<close>

definition set_fresh_air :: "device \<Rightarrow> val \<Rightarrow> val \<Rightarrow> message \<Rightarrow> message" where
  "set_fresh_air d on speed m =
     (case fresh_air_version d of
        None \<Rightarrow> set_prop (Name ''undefined'') (Tuple on speed) m
      | Some n \<Rightarrow> set_prop (Index n) (Tuple on speed) m)"

text \<open>
  The body of the loop of \<open>set_attribute\<close> for one entry \<open>(k, v)\<close>: the command built for
  it, if any, and the device after it.
\<close>

definition set_one ::
  "(string \<Rightarrow> rat option) \<Rightarrow> string \<Rightarrow> val \<Rightarrow> device \<Rightarrow> message option \<times> device" where
  "set_one sn k v d =
     (let a = attributes d in
      if k \<in> set sensor_names then (None, d)
      else if k = ''PROMPT_TONE''
      then (None, d\<lparr>attributes := AList.update ''PROMPT_TONE'' v a\<rparr>)
      else if k = ''SCREEN_DISPAY''
      then (if truthy (attr a ''SCREEN_DISPLAY_NEW'')
            then (Some (set_prop (Name ''prompt_tone'') (Scalar (attr a ''PROMPT_TONE''))
                         (set_prop (Name ''screen_display'') (Scalar v)
                           (new_message MessageNewProtocolSet (version d)))), d)
            else (Some (new_message MessageSwitchDisplay (version d)), d))
      else if k \<in> set [''INDIRECT_WIND'', ''BREEZELESS'']
      then (Some (set_prop (Name ''prompt_tone'') (Scalar (attr a ''PROMPT_TONE''))
                   (set_prop (Name (toLowerCase k)) (Scalar v)
                     (new_message MessageNewProtocolSet (version d)))), d)
      else if k = ''FRESH_AIR_POWER''
      then (if version_known d
            then (Some (set_fresh_air d v (attr a ''FRESH_AIR_FAN_SPEED'')
                         (new_message MessageNewProtocolSet (version d))), d)
            else (None, d))
      else if k = ''FRESH_AIR_MODE'' \<and> version_known d
      then (if v \<in> set (map (\<lambda>e. VStr (snd e)) (Object_entries FRESH_AIR_FAN_SPEEDS))
            then (let speed = (case find (\<lambda>e. VStr (snd e) = v) (Object_entries FRESH_AIR_FAN_SPEEDS)
                               of None \<Rightarrow> None | Some e \<Rightarrow> Some (of_nat (fst e) :: rat))
                  in (Some ((case speed of
                               None \<Rightarrow> set_fresh_air d (VBool False) (attr a ''FRESH_AIR_FAN_SPEED'')
                             | Some s \<Rightarrow>
                                 if s > 0 then set_fresh_air d (VBool True) (VNum s)
                                 else set_fresh_air d (VBool False) (attr a ''FRESH_AIR_FAN_SPEED''))
                            (new_message MessageNewProtocolSet (version d))), d))
            else if \<not> truthy v
            then (Some (set_fresh_air d (VBool False) (attr a ''FRESH_AIR_FAN_SPEED'')
                         (new_message MessageNewProtocolSet (version d))), d)
            else (None, d))
      else if k = ''FRESH_AIR_FAN_SPEED'' \<and> version_known d
      then (Some ((if js_gt sn v 0 then set_fresh_air d (VBool True) v
                   else set_fresh_air d (VBool False) (attr a ''FRESH_AIR_FAN_SPEED''))
                  (new_message MessageNewProtocolSet (version d))), d)
      else (let message = make_message_unique_set d in
            if k \<in> set mode_group
            then (if kind message = MessageGeneralSet \<or> kind message = MessageSubProtocolSet
                  then (let m1 = set_prop (Name ''eco_mode'') (Scalar (VBool False))
                                   (set_prop (Name ''boost_mode'') (Scalar (VBool False))
                                     (set_prop (Name ''sleep_mode'') (Scalar (VBool False)) message));
                            m2 = (if kind m1 = MessageGeneralSet
                                  then set_prop (Name ''comfort_mode'') (Scalar (VBool False))
                                         (set_prop (Name ''frost_protect'') (Scalar (VBool False)) m1)
                                  else m1);
                            m3 = set_prop (Name (toLowerCase k)) (Scalar v) m2;
                            m4 = (if k = ''MODE''
                                  then set_prop (Name ''power'') (Scalar (VBool True)) m3 else m3)
                        in (Some m4, d))
                  else (Some message, d))
            else (Some message, d)))"

text \<open>
  \<open>set_attribute\<close> walks the entries of its argument in order and hands each command to
  \<open>build_send\<close>: the result is the list of commands sent, in order, and the device.
\<close>

fun set_attribute ::
  "(string \<Rightarrow> rat option) \<Rightarrow> (string \<times> val) list \<Rightarrow> device \<Rightarrow> message list \<times> device" where
  "set_attribute sn [] d = ([], d)"
| "set_attribute sn ((k, v) # rest) d =
     (case set_one sn k v d of (m, d') \<Rightarrow>
        (case set_attribute sn rest d' of (ms, d'') \<Rightarrow>
           ((case m of None \<Rightarrow> ms | Some x \<Rightarrow> x # ms), d'')))"

section \<open>\<open>set_target_temperature\<close> and \<open>set_swing\<close>\<close>



section \<open>A session: the operations of the device, in sequence\<close>




section \<open>Routing of a request\<close>

text \<open>
  The members of the mutually exclusive group that the generic command of the selected
  family carries: \<open>frost_protect\<close> and \<open>comfort_mode\<close> are cleared only on a
  \<open>MessageGeneralSet\<close>.
\<close>

definition group_in_family :: "device \<Rightarrow> string list" where
  "group_in_family d =
     (if used_subprotocol d then [''BOOST_MODE'', ''SLEEP_MODE'', ''ECO_MODE''] else mode_group)"

text \<open>
  The requests that reach the last branch of the chain in \<open>set_attribute\<close>, the generic
  status-set command: none of the earlier tests holds.
\<close>

definition routed_generic :: "string \<Rightarrow> device \<Rightarrow> bool" where
  "routed_generic k d =
     (k \<notin> set sensor_names \<and> k \<noteq> ''PROMPT_TONE'' \<and> k \<noteq> ''SCREEN_DISPAY''
      \<and> k \<notin> set [''INDIRECT_WIND'', ''BREEZELESS''] \<and> k \<noteq> ''FRESH_AIR_POWER''
      \<and> \<not> (k = ''FRESH_AIR_MODE'' \<and> version_known d)
      \<and> \<not> (k = ''FRESH_AIR_FAN_SPEED'' \<and> version_known d))"

section \<open>Reference notions for the statements\<close>




section \<open>Basic facts about objects and commands\<close>

lemma attr_update: "attr (AList.update k v a) k' = (if k' = k then v else attr a k')"
  by (simp add: attr_def update_conv')

lemma get_prop_set_prop:
  "get_prop (set_prop k f m) k' = (if k' = k then Some f else get_prop m k')"
  by (simp add: get_prop_def set_prop_def update_conv')

lemma kind_set_prop: "kind (set_prop k f m) = kind m"
  by (simp add: set_prop_def)

lemma set_attribute_append:
  "set_attribute sn (xs @ ys) d =
     (case set_attribute sn xs d of (ms, d') \<Rightarrow>
        (case set_attribute sn ys d' of (ms', d'') \<Rightarrow> (ms @ ms', d'')))"
  by (induction xs arbitrary: d) (auto split: prod.splits option.splits)

section \<open>Sensor-only attributes\<close>

lemma set_one_sensor: "k \<in> set sensor_names \<Longrightarrow> set_one sn k v d = (None, d)"
  by (simp add: set_one_def)

text \<open>
  Claim C6. A \<open>set_attribute\<close> request that names a sensor-only attribute builds no
  command for it and leaves the device as it was: the loop body returns no command and
  the same device, a request of that entry alone sends nothing, and inside a longer
  request the entry can be dropped without changing the commands sent or the final
  device. The model is total, so no error is raised.
\<close>

theorem sensor_request_is_noop:
  assumes "k \<in> set sensor_names"
  shows "set_one sn k v d = (None, d) \<and>
         set_attribute sn [(k, v)] d = ([], d) \<and>
         set_attribute sn (pre @ (k, v) # post) d = set_attribute sn (pre @ post) d"
  using assms by (simp add: set_attribute_append set_one_sensor split: prod.splits)

theorem sensor_request_is_noop_witness:
  "set_one (\<lambda>_. None) ''INDOOR_TEMPERATURE'' (VNum 21) (initial_device 3)
     = (None, initial_device 3) \<and>
   set_attribute (\<lambda>_. None) [(''INDOOR_TEMPERATURE'', VNum 21)] (initial_device 3)
     = ([], initial_device 3) \<and>
   set_attribute (\<lambda>_. None)
       ([(''PROMPT_TONE'', VBool True)] @ (''REALTIME_POWER'', VNum 5) # []) (initial_device 3)
     = set_attribute (\<lambda>_. None) ([(''PROMPT_TONE'', VBool True)] @ []) (initial_device 3)"
  using sensor_request_is_noop
          [of "''INDOOR_TEMPERATURE''" "\<lambda>_. None" "VNum 21" "initial_device 3" "[]" "[]"]
        sensor_request_is_noop
          [of "''REALTIME_POWER''" "\<lambda>_. None" "VNum 5" "initial_device 3"
              "[(''PROMPT_TONE'', VBool True)]" "[]"]
  by (simp add: sensor_names_def)

section \<open>The generic status-set command\<close>

lemma toLowerCase_group:
  "toLowerCase ''BOOST_MODE'' = ''boost_mode''"
  "toLowerCase ''SLEEP_MODE'' = ''sleep_mode''"
  "toLowerCase ''FROST_PROTECT'' = ''frost_protect''"
  "toLowerCase ''COMFORT_MODE'' = ''comfort_mode''"
  "toLowerCase ''ECO_MODE'' = ''eco_mode''"
  by (simp_all add: toLowerCase_def char_to_lower_def)

lemma set_one_generic:
  "routed_generic k d \<Longrightarrow> k \<notin> set mode_group \<Longrightarrow>
   set_one sn k v d = (Some (make_message_unique_set d), d)"
  by (cases "version_known d") (simp_all add: set_one_def routed_generic_def Let_def)

lemma kind_unique_set:
  "kind (make_message_unique_set d) =
     (if used_subprotocol d then MessageSubProtocolSet else MessageGeneralSet)"
  by (simp add: make_message_unique_set_def make_message_set_def
      make_subprotocol_message_set_def Let_def)

lemma set_one_group:
  assumes "k \<in> set mode_group"
  shows "set_one sn k v d =
     (Some (set_prop (Name (toLowerCase k)) (Scalar v)
        ((if used_subprotocol d then (\<lambda>m. m)
          else (\<lambda>m. set_prop (Name ''comfort_mode'') (Scalar (VBool False))
                      (set_prop (Name ''frost_protect'') (Scalar (VBool False)) m)))
         (set_prop (Name ''eco_mode'') (Scalar (VBool False))
           (set_prop (Name ''boost_mode'') (Scalar (VBool False))
             (set_prop (Name ''sleep_mode'') (Scalar (VBool False))
               (make_message_unique_set d)))))), d)"
proof -
  have r: "k \<notin> set sensor_names" "k \<noteq> ''PROMPT_TONE''" "k \<noteq> ''SCREEN_DISPAY''"
    "k \<notin> set [''INDIRECT_WIND'', ''BREEZELESS'']" "k \<noteq> ''FRESH_AIR_POWER''"
    "k \<noteq> ''FRESH_AIR_MODE''" "k \<noteq> ''FRESH_AIR_FAN_SPEED''" "k \<noteq> ''MODE''"
    using assms by (auto simp: mode_group_def sensor_names_def)
  show ?thesis
    using assms r by (simp add: set_one_def Let_def kind_set_prop kind_unique_set)
qed

lemma toLowerCase_group_inj:
  assumes "k \<in> set mode_group" and "g \<in> set mode_group" and "g \<noteq> k"
  shows "toLowerCase g \<noteq> toLowerCase k"
proof -
  from assms(1) have k: "k = ''BOOST_MODE'' \<or> k = ''SLEEP_MODE'' \<or> k = ''FROST_PROTECT''
      \<or> k = ''COMFORT_MODE'' \<or> k = ''ECO_MODE''"
    by (simp add: mode_group_def)
  from assms(2) have g: "g = ''BOOST_MODE'' \<or> g = ''SLEEP_MODE'' \<or> g = ''FROST_PROTECT''
      \<or> g = ''COMFORT_MODE'' \<or> g = ''ECO_MODE''"
    by (simp add: mode_group_def)
  from k g assms(3) show ?thesis
    by (elim disjE) (simp_all add: toLowerCase_group)
qed

text \<open>
  Claim C4. A request that sets one member of the group BOOST_MODE, SLEEP_MODE,
  FROST_PROTECT, COMFORT_MODE, ECO_MODE to true sends exactly one command, the
  status-set command of the selected family; it carries the requested flag as true and
  every other member of the group that the family has as false (three members on the
  sub-protocol command, five on the general one).
\<close>

theorem mode_group_exclusive:
  assumes "k \<in> set mode_group"
  shows "\<exists>m. set_attribute sn [(k, VBool True)] d = ([m], d)
           \<and> kind m = (if used_subprotocol d then MessageSubProtocolSet else MessageGeneralSet)
           \<and> get_prop m (Name (toLowerCase k)) = Some (Scalar (VBool True))
           \<and> (\<forall>g \<in> set (group_in_family d). g \<noteq> k \<longrightarrow>
                 get_prop m (Name (toLowerCase g)) = Some (Scalar (VBool False)))"
proof -
  define m where "m = set_prop (Name (toLowerCase k)) (Scalar (VBool True))
        ((if used_subprotocol d then (\<lambda>m. m)
          else (\<lambda>m. set_prop (Name ''comfort_mode'') (Scalar (VBool False))
                      (set_prop (Name ''frost_protect'') (Scalar (VBool False)) m)))
         (set_prop (Name ''eco_mode'') (Scalar (VBool False))
           (set_prop (Name ''boost_mode'') (Scalar (VBool False))
             (set_prop (Name ''sleep_mode'') (Scalar (VBool False))
               (make_message_unique_set d)))))"
  have sent: "set_attribute sn [(k, VBool True)] d = ([m], d)"
    by (simp add: set_one_group [OF assms] m_def)
  have knd: "kind m = (if used_subprotocol d then MessageSubProtocolSet else MessageGeneralSet)"
    by (simp add: m_def kind_set_prop kind_unique_set)
  have req: "get_prop m (Name (toLowerCase k)) = Some (Scalar (VBool True))"
    by (simp add: m_def get_prop_set_prop)
  have others: "get_prop m (Name (toLowerCase g)) = Some (Scalar (VBool False))"
    if g: "g \<in> set (group_in_family d)" and neq: "g \<noteq> k" for g
  proof (cases "used_subprotocol d")
    case True
    with g have gs: "g = ''BOOST_MODE'' \<or> g = ''SLEEP_MODE'' \<or> g = ''ECO_MODE''"
      by (simp add: group_in_family_def)
    then have "g \<in> set mode_group"
      by (auto simp: mode_group_def)
    then have ne: "toLowerCase g \<noteq> toLowerCase k"
      using assms neq by (simp add: toLowerCase_group_inj)
    from gs ne True show ?thesis
      by (elim disjE) (simp_all add: m_def get_prop_set_prop toLowerCase_group)
  next
    case False
    with g have gm: "g \<in> set mode_group"
      by (simp add: group_in_family_def)
    then have ne: "toLowerCase g \<noteq> toLowerCase k"
      using assms neq by (simp add: toLowerCase_group_inj)
    from gm have gs: "g = ''BOOST_MODE'' \<or> g = ''SLEEP_MODE'' \<or> g = ''FROST_PROTECT''
        \<or> g = ''COMFORT_MODE'' \<or> g = ''ECO_MODE''"
      by (simp add: mode_group_def)
    from gs ne False show ?thesis
      by (elim disjE) (simp_all add: m_def get_prop_set_prop toLowerCase_group)
  qed
  from sent knd req others show ?thesis
    by blast
qed

theorem mode_group_exclusive_witness:
  "\<exists>m. set_attribute (\<lambda>_. None) [(''ECO_MODE'', VBool True)] (initial_device 3)
          = ([m], initial_device 3)
       \<and> kind m = MessageGeneralSet
       \<and> get_prop m (Name ''eco_mode'') = Some (Scalar (VBool True))
       \<and> get_prop m (Name ''boost_mode'') = Some (Scalar (VBool False))
       \<and> get_prop m (Name ''sleep_mode'') = Some (Scalar (VBool False))
       \<and> get_prop m (Name ''frost_protect'') = Some (Scalar (VBool False))
       \<and> get_prop m (Name ''comfort_mode'') = Some (Scalar (VBool False))"
  using mode_group_exclusive [of "''ECO_MODE''" "\<lambda>_. None" "initial_device 3"]
  by (simp add: mode_group_def group_in_family_def initial_device_def toLowerCase_group)

text \<open>
  Claim C10. A request that reaches the generic status-set command with a name outside
  the mutually exclusive group sends exactly one command: a \<open>MessageSubProtocolSet\<close>
  when the sub-protocol is in use and a \<open>MessageGeneralSet\<close> otherwise. Every property
  of that command is the stored attribute of its name (on the sub-protocol command also
  the two stored flags \<open>bb_sn8_flag\<close> and \<open>bb_timer\<close>); the requested value \<open>v\<close>
  appears nowhere in the command, and the device, with its stored attribute of the
  requested name, is returned unchanged.
\<close>

theorem generic_request_sends_stored_values:
  assumes "routed_generic k d" and "k \<notin> set mode_group"
  shows "set_attribute sn [(k, v)] d =
     ([if used_subprotocol d
       then \<lparr>kind = MessageSubProtocolSet, proto_version = version d,
             props =
               [(Name ''power'', Scalar (attr (attributes d) ''POWER'')),
                (Name ''prompt_tone'', Scalar (attr (attributes d) ''PROMPT_TONE'')),
                (Name ''aux_heating'', Scalar (attr (attributes d) ''AUX_HEATING'')),
                (Name ''mode'', Scalar (attr (attributes d) ''MODE'')),
                (Name ''target_temperature'', Scalar (attr (attributes d) ''TARGET_TEMPERATURE'')),
                (Name ''fan_speed'', Scalar (attr (attributes d) ''FAN_SPEED'')),
                (Name ''boost_mode'', Scalar (attr (attributes d) ''BOOST_MODE'')),
                (Name ''dry'', Scalar (attr (attributes d) ''DRY'')),
                (Name ''eco_mode'', Scalar (attr (attributes d) ''ECO_MODE'')),
                (Name ''sleep_mode'', Scalar (attr (attributes d) ''SLEEP_MODE'')),
                (Name ''sn8_flag'', Scalar (bb_sn8_flag d)),
                (Name ''timer'', Scalar (bb_timer d))]\<rparr>
       else \<lparr>kind = MessageGeneralSet, proto_version = version d,
             props =
               [(Name ''power'', Scalar (attr (attributes d) ''POWER'')),
                (Name ''prompt_tone'', Scalar (attr (attributes d) ''PROMPT_TONE'')),
                (Name ''mode'', Scalar (attr (attributes d) ''MODE'')),
                (Name ''target_temperature'', Scalar (attr (attributes d) ''TARGET_TEMPERATURE'')),
                (Name ''fan_speed'', Scalar (attr (attributes d) ''FAN_SPEED'')),
                (Name ''swing_vertical'', Scalar (attr (attributes d) ''SWING_VERTICAL'')),
                (Name ''swing_horizontal'', Scalar (attr (attributes d) ''SWING_HORIZONTAL'')),
                (Name ''boost_mode'', Scalar (attr (attributes d) ''BOOST_MODE'')),
                (Name ''smart_eye'', Scalar (attr (attributes d) ''SMART_EYE'')),
                (Name ''dry'', Scalar (attr (attributes d) ''DRY'')),
                (Name ''eco_mode'', Scalar (attr (attributes d) ''ECO_MODE'')),
                (Name ''aux_heating'', Scalar (attr (attributes d) ''AUX_HEATING'')),
                (Name ''sleep_mode'', Scalar (attr (attributes d) ''SLEEP_MODE'')),
                (Name ''frost_protect'', Scalar (attr (attributes d) ''FROST_PROTECT'')),
                (Name ''comfort_mode'', Scalar (attr (attributes d) ''COMFORT_MODE'')),
                (Name ''natural_wind'', Scalar (attr (attributes d) ''NATURAL_WIND'')),
                (Name ''temp_fahrenheit'', Scalar (attr (attributes d) ''TEMP_FAHRENHEIT''))]\<rparr>],
      d)"
  using assms
  by (simp add: set_one_generic make_message_unique_set_def make_message_set_def
      make_subprotocol_message_set_def Let_def)

theorem generic_request_sends_stored_values_witness:
  "routed_generic ''TARGET_TEMPERATURE'' (initial_device 3)
   \<and> ''TARGET_TEMPERATURE'' \<notin> set mode_group
   \<and> set_attribute (\<lambda>_. None) [(''TARGET_TEMPERATURE'', VNum 21)] (initial_device 3) =
     ([\<lparr>kind = MessageGeneralSet, proto_version = 3,
        props =
          [(Name ''power'', Scalar (VBool False)),
           (Name ''prompt_tone'', Scalar (VBool False)),
           (Name ''mode'', Scalar (VNum 0)),
           (Name ''target_temperature'', Scalar (VNum 24)),
           (Name ''fan_speed'', Scalar (VNum 102)),
           (Name ''swing_vertical'', Scalar (VBool False)),
           (Name ''swing_horizontal'', Scalar (VBool False)),
           (Name ''boost_mode'', Scalar (VBool False)),
           (Name ''smart_eye'', Scalar (VBool False)),
           (Name ''dry'', Scalar (VBool False)),
           (Name ''eco_mode'', Scalar (VBool False)),
           (Name ''aux_heating'', Scalar (VBool False)),
           (Name ''sleep_mode'', Scalar (VBool False)),
           (Name ''frost_protect'', Scalar (VBool False)),
           (Name ''comfort_mode'', Scalar (VBool False)),
           (Name ''natural_wind'', Scalar (VBool False)),
           (Name ''temp_fahrenheit'', Scalar (VBool False))]\<rparr>],
      initial_device 3)
   \<and> routed_generic ''MODE'' ((initial_device 3)\<lparr>used_subprotocol := True\<rparr>)
   \<and> ''MODE'' \<notin> set mode_group
   \<and> set_attribute (\<lambda>_. None) [(''MODE'', VNum 2)]
       ((initial_device 3)\<lparr>used_subprotocol := True\<rparr>) =
     ([\<lparr>kind = MessageSubProtocolSet, proto_version = 3,
        props =
          [(Name ''power'', Scalar (VBool False)),
           (Name ''prompt_tone'', Scalar (VBool False)),
           (Name ''aux_heating'', Scalar (VBool False)),
           (Name ''mode'', Scalar (VNum 0)),
           (Name ''target_temperature'', Scalar (VNum 24)),
           (Name ''fan_speed'', Scalar (VNum 102)),
           (Name ''boost_mode'', Scalar (VBool False)),
           (Name ''dry'', Scalar (VBool False)),
           (Name ''eco_mode'', Scalar (VBool False)),
           (Name ''sleep_mode'', Scalar (VBool False)),
           (Name ''sn8_flag'', Scalar (VBool False)),
           (Name ''timer'', Scalar (VBool False))]\<rparr>],
      (initial_device 3)\<lparr>used_subprotocol := True\<rparr>)"
  using generic_request_sends_stored_values
          [of "''TARGET_TEMPERATURE''" "initial_device 3" "\<lambda>_. None" "VNum 21"]
        generic_request_sends_stored_values
          [of "''MODE''" "(initial_device 3)\<lparr>used_subprotocol := True\<rparr>" "\<lambda>_. None" "VNum 2"]
  by (simp add: routed_generic_def sensor_names_def mode_group_def initial_device_def
      initial_attributes_def attr_def)

text \<open>
  Claim C3. The claim asks that a request for MODE = 2 sends a command with mode 2 and
  power on. On a new device the request sends one general status-set command that
  carries the stored mode 0 and the stored power off: the assignment of the requested
  value and the test \<open>k === 'MODE'\<close> stand inside the branch of the mutually exclusive
  group, which MODE never enters.
\<close>

theorem mode_request_ignored:
  "map (\<lambda>m. (kind m, get_prop m (Name ''mode''), get_prop m (Name ''power'')))
      (fst (set_attribute (\<lambda>_. None) [(''MODE'', VNum 2)] (initial_device 3)))
   = [(MessageGeneralSet, Some (Scalar (VNum 0)), Some (Scalar (VBool False)))]"
  by (simp add: set_one_def sensor_names_def mode_group_def version_known_def initial_device_def
      initial_attributes_def attr_def get_prop_def make_message_unique_set_def
      make_message_set_def Let_def)

section \<open>The display toggle and the fresh-air requests\<close>

text \<open>
  Claim C8. The claim asks that a request on SCREEN_DISPLAY builds a new-protocol set
  command or a switch-display command. The chain tests the name \<open>SCREEN_DISPAY\<close>, so a
  request on SCREEN_DISPLAY reaches the generic branch: it sends a general status-set
  command, whether SCREEN_DISPLAY_NEW is stored false or true.
\<close>

theorem screen_display_request_misrouted:
  "map kind (fst (set_attribute (\<lambda>_. None) [(''SCREEN_DISPLAY'', VBool True)] (initial_device 3)))
     = [MessageGeneralSet]
   \<and> map kind (fst (set_attribute (\<lambda>_. None) [(''SCREEN_DISPLAY'', VBool True)]
        ((initial_device 3)\<lparr>attributes :=
            AList.update ''SCREEN_DISPLAY_NEW'' (VBool True) initial_attributes\<rparr>)))
     = [MessageGeneralSet]"
  by (simp add: set_one_def sensor_names_def mode_group_def version_known_def initial_device_def
      kind_unique_set Let_def)

text \<open>
  Claim C7. The claim asks that no fresh-air request builds a command while the
  fresh-air version is unknown. On a new device (version unknown) a request on
  FRESH_AIR_POWER sends nothing, but a request on FRESH_AIR_MODE or on
  FRESH_AIR_FAN_SPEED fails the test \<open>&& this.fresh_air_version\<close> of its branch, falls
  through to the generic branch and sends a general status-set command.
\<close>

theorem fresh_air_request_before_version_known:
  "fresh_air_version (initial_device 3) = None
   \<and> map kind (fst (set_attribute (\<lambda>_. None) [(''FRESH_AIR_MODE'', VStr ''Low'')]
        (initial_device 3))) = [MessageGeneralSet]
   \<and> map kind (fst (set_attribute (\<lambda>_. None) [(''FRESH_AIR_FAN_SPEED'', VNum 40)]
        (initial_device 3))) = [MessageGeneralSet]
   \<and> fst (set_attribute (\<lambda>_. None) [(''FRESH_AIR_POWER'', VBool True)] (initial_device 3)) = []"
  by (simp add: set_one_def sensor_names_def mode_group_def version_known_def initial_device_def
      kind_unique_set Let_def)

section \<open>The stages of \<open>process_message\<close>\<close>

lemma map_of_update_other: "k' \<noteq> k \<Longrightarrow> map_of (AList.update k v al) k' = map_of al k'"
  by (simp add: update_conv')

lemma map_of_update_same: "map_of (AList.update k v al) k = Some v"
  by (simp add: update_conv')


lemma merge_status_agree:
  assumes "merge_status message ks (a, ns, h) = (a', ns', h')"
    and "\<And>k v. map_of ns k = Some v \<Longrightarrow> attr a k = v"
    and "map_of ns' k = Some v"
  shows "attr a' k = v"
  using assms
proof (induction ks arbitrary: a ns h)
  case Nil
  then show ?case by simp
next
  case (Cons status rest)
  show ?case
  proof (cases "truthy (get_body_attribute message status)")
    case True
    let ?v = "get_body_attribute message status"
    from Cons.prems(1) True
    have m: "merge_status message rest (AList.update status ?v a, AList.update status ?v ns,
        h \<or> status = ''FRESH_AIR_POWER'') = (a', ns', h')"
      by simp
    have inv: "attr (AList.update status ?v a) k' = v'"
      if "map_of (AList.update status ?v ns) k' = Some v'" for k' v'
      using that Cons.prems(2) [of k' v']
      by (cases "k' = status") (simp_all add: attr_update update_conv')
    from Cons.IH [OF m inv Cons.prems(3)] show ?thesis .
  next
    case False
    with Cons.prems(1) have m: "merge_status message rest (a, ns, h) = (a', ns', h')"
      by simp
    from Cons.IH [OF m Cons.prems(2) Cons.prems(3)] show ?thesis .
  qed
qed



lemma merge_status_absent:
  assumes "\<not> truthy (get_body_attribute message k)"
  shows "attr (fst (merge_status message ks (a, ns, h))) k = attr a k
         \<and> map_of (fst (snd (merge_status message ks (a, ns, h)))) k = map_of ns k"
  using assms
proof (induction ks arbitrary: a ns h)
  case Nil
  then show ?case by simp
next
  case (Cons status rest)
  then show ?case
    by (cases "status = k") (simp_all add: attr_update update_conv')
qed

lemma fresh_air_scan_other:
  "k \<noteq> ''FRESH_AIR_MODE'' \<Longrightarrow> attr (fresh_air_scan sn es a) k = attr a k"
  by (induction es arbitrary: a) (auto simp: attr_update)

lemma derive_fresh_air_mode_other:
  assumes "k \<noteq> ''FRESH_AIR_MODE''"
  shows "attr (fst (derive_fresh_air_mode sn (a, ns, h))) k = attr a k
         \<and> map_of (snd (derive_fresh_air_mode sn (a, ns, h))) k = map_of ns k"
  using assms
  by (simp add: derive_fresh_air_mode_def Let_def fresh_air_scan_other attr_update update_conv')


lemma force_indirect_wind_other:
  assumes "k \<noteq> ''INDIRECT_WIND''"
  shows "attr (fst (force_indirect_wind (a, ns))) k = attr a k
         \<and> map_of (snd (force_indirect_wind (a, ns))) k = map_of ns k"
  using assms by (simp add: force_indirect_wind_def attr_update update_conv')

lemma force_indirect_wind_forced:
  assumes "\<not> truthy (attr a ''POWER'')
           \<or> (map_of ns ''SWING_VERTICAL'' \<noteq> None \<and> truthy (attr a ''SWING_VERTICAL''))"
  shows "attr (fst (force_indirect_wind (a, ns))) ''INDIRECT_WIND'' = VBool False
         \<and> map_of (snd (force_indirect_wind (a, ns))) ''INDIRECT_WIND'' = Some (VBool False)"
proof -
  have "(''SWING_VERTICAL'' \<in> set (map fst ns)) = (map_of ns ''SWING_VERTICAL'' \<noteq> None)"
    by (simp add: map_of_eq_None_iff)
  with assms show ?thesis
    by (auto simp: force_indirect_wind_def attr_update update_conv')
qed

lemma force_screen_display_other:
  assumes "k \<noteq> ''SCREEN_DISPLAY''"
  shows "attr (fst (force_screen_display (a, ns))) k = attr a k
         \<and> map_of (snd (force_screen_display (a, ns))) k = map_of ns k"
  using assms by (simp add: force_screen_display_def attr_update update_conv')

lemma force_screen_display_forced:
  assumes "\<not> truthy (attr a ''POWER'')"
  shows "attr (fst (force_screen_display (a, ns))) ''SCREEN_DISPLAY'' = VBool False
         \<and> map_of (snd (force_screen_display (a, ns))) ''SCREEN_DISPLAY'' = Some (VBool False)"
  using assms by (simp add: force_screen_display_def attr_update update_conv')

lemma process_message_stages:
  obtains d1 a1 ns1 h a2 ns2 a3 ns3 a4 ns4 where
    "d1 = note_subprotocol message d"
    "merge_status message (map fst (attributes d1)) (attributes d1, [], False) = (a1, ns1, h)"
    "derive_fresh_air_mode sn (a1, ns1, h) = (a2, ns2)"
    "force_indirect_wind (a2, ns2) = (a3, ns3)"
    "force_screen_display (a3, ns3) = (a4, ns4)"
    "process_message sn message d =
       (ns4, d1\<lparr>attributes := a4,
                fresh_air_version := learn_fresh_air_version a4 (fresh_air_version d1)\<rparr>)"
proof -
  define d1 where "d1 = note_subprotocol message d"
  obtain a1 ns1 h where m:
    "merge_status message (map fst (attributes d1)) (attributes d1, [], False) = (a1, ns1, h)"
    by (cases "merge_status message (map fst (attributes d1)) (attributes d1, [], False)")
  obtain a2 ns2 where f: "derive_fresh_air_mode sn (a1, ns1, h) = (a2, ns2)"
    by (cases "derive_fresh_air_mode sn (a1, ns1, h)")
  obtain a3 ns3 where i: "force_indirect_wind (a2, ns2) = (a3, ns3)"
    by (cases "force_indirect_wind (a2, ns2)")
  obtain a4 ns4 where s: "force_screen_display (a3, ns3) = (a4, ns4)"
    by (cases "force_screen_display (a3, ns3)")
  have "process_message sn message d =
       (ns4, d1\<lparr>attributes := a4,
                fresh_air_version := learn_fresh_air_version a4 (fresh_air_version d1)\<rparr>)"
    by (simp add: process_message_def Let_def d1_def [symmetric] m f i s)
  with d1_def m f i s that show thesis
    by blast
qed


section \<open>Corrections after a status update\<close>

text \<open>
  Claim C5. After every \<open>process_message\<close> call: if the stored POWER is false (falsy)
  then the stored INDIRECT_WIND and SCREEN_DISPLAY are false and the change-set holds
  both names with the value false, whatever they were before the call; and if the
  change-set holds SWING_VERTICAL = true then the stored INDIRECT_WIND is false and the
  change-set holds INDIRECT_WIND = false.
\<close>

theorem power_off_corrections:
  assumes "process_message sn message d = (new_status, d')"
  shows "(\<not> truthy (attr (attributes d') ''POWER'') \<longrightarrow>
            attr (attributes d') ''INDIRECT_WIND'' = VBool False
          \<and> attr (attributes d') ''SCREEN_DISPLAY'' = VBool False
          \<and> map_of new_status ''INDIRECT_WIND'' = Some (VBool False)
          \<and> map_of new_status ''SCREEN_DISPLAY'' = Some (VBool False))
       \<and> (map_of new_status ''SWING_VERTICAL'' = Some (VBool True) \<longrightarrow>
            attr (attributes d') ''INDIRECT_WIND'' = VBool False
          \<and> map_of new_status ''INDIRECT_WIND'' = Some (VBool False))"
proof -
  obtain d1 a1 ns1 h a2 ns2 a3 ns3 a4 ns4 where
    d1: "d1 = note_subprotocol message d"
    and m: "merge_status message (map fst (attributes d1)) (attributes d1, [], False) = (a1, ns1, h)"
    and f: "derive_fresh_air_mode sn (a1, ns1, h) = (a2, ns2)"
    and i: "force_indirect_wind (a2, ns2) = (a3, ns3)"
    and s: "force_screen_display (a3, ns3) = (a4, ns4)"
    and p: "process_message sn message d =
       (ns4, d1\<lparr>attributes := a4,
                fresh_air_version := learn_fresh_air_version a4 (fresh_air_version d1)\<rparr>)"
    by (rule process_message_stages)
  from p assms have ns: "new_status = ns4" and a: "attributes d' = a4"
    by auto
  have keep_s: "attr a4 k = attr a3 k \<and> map_of ns4 k = map_of ns3 k"
    if "k \<noteq> ''SCREEN_DISPLAY''" for k
    using force_screen_display_other [OF that, of a3 ns3] by (simp add: s)
  have keep_i: "attr a3 k = attr a2 k \<and> map_of ns3 k = map_of ns2 k"
    if "k \<noteq> ''INDIRECT_WIND''" for k
    using force_indirect_wind_other [OF that, of a2 ns2] by (simp add: i)
  have keep_f: "attr a2 k = attr a1 k \<and> map_of ns2 k = map_of ns1 k"
    if "k \<noteq> ''FRESH_AIR_MODE''" for k
    using derive_fresh_air_mode_other [OF that, of sn a1 ns1 h] by (simp add: f)
  have off: "attr a4 ''INDIRECT_WIND'' = VBool False \<and> attr a4 ''SCREEN_DISPLAY'' = VBool False
      \<and> map_of ns4 ''INDIRECT_WIND'' = Some (VBool False)
      \<and> map_of ns4 ''SCREEN_DISPLAY'' = Some (VBool False)"
    if "\<not> truthy (attr a4 ''POWER'')"
  proof -
    from that have p3: "\<not> truthy (attr a3 ''POWER'')"
      using keep_s [of "''POWER''"] by simp
    then have p2: "\<not> truthy (attr a2 ''POWER'')"
      using keep_i [of "''POWER''"] by simp
    from force_indirect_wind_forced [of a2 ns2] p2
    have "attr a3 ''INDIRECT_WIND'' = VBool False
        \<and> map_of ns3 ''INDIRECT_WIND'' = Some (VBool False)"
      by (simp add: i)
    moreover from force_screen_display_forced [OF p3, of ns3]
    have "attr a4 ''SCREEN_DISPLAY'' = VBool False
        \<and> map_of ns4 ''SCREEN_DISPLAY'' = Some (VBool False)"
      by (simp add: s)
    ultimately show ?thesis
      using keep_s [of "''INDIRECT_WIND''"] by simp
  qed
  have swing: "attr a4 ''INDIRECT_WIND'' = VBool False
      \<and> map_of ns4 ''INDIRECT_WIND'' = Some (VBool False)"
    if "map_of ns4 ''SWING_VERTICAL'' = Some (VBool True)"
  proof -
    from that have n2: "map_of ns2 ''SWING_VERTICAL'' = Some (VBool True)"
      using keep_s [of "''SWING_VERTICAL''"] keep_i [of "''SWING_VERTICAL''"] by simp
    then have n1: "map_of ns1 ''SWING_VERTICAL'' = Some (VBool True)"
      using keep_f [of "''SWING_VERTICAL''"] by simp
    have "attr a1 ''SWING_VERTICAL'' = VBool True"
      by (rule merge_status_agree [OF m _ n1]) simp
    then have "truthy (attr a2 ''SWING_VERTICAL'')"
      using keep_f [of "''SWING_VERTICAL''"] by simp
    with n2 force_indirect_wind_forced [of a2 ns2]
    have "attr a3 ''INDIRECT_WIND'' = VBool False
        \<and> map_of ns3 ''INDIRECT_WIND'' = Some (VBool False)"
      by (simp add: i)
    then show ?thesis
      using keep_s [of "''INDIRECT_WIND''"] by simp
  qed
  from off swing show ?thesis
    by (simp add: ns a)
qed

theorem power_off_corrections_witness:
  "attr (attributes (snd (process_message (\<lambda>_. None) \<lparr>resp_used_subprotocol = False, body = Map.empty\<rparr> (initial_device 3))))
       ''INDIRECT_WIND'' = VBool False
   \<and> attr (attributes (snd (process_message (\<lambda>_. None) \<lparr>resp_used_subprotocol = False, body = Map.empty\<rparr> (initial_device 3))))
       ''SCREEN_DISPLAY'' = VBool False
   \<and> map_of (fst (process_message (\<lambda>_. None) \<lparr>resp_used_subprotocol = False, body = Map.empty\<rparr> (initial_device 3))) ''INDIRECT_WIND''
       = Some (VBool False)
   \<and> map_of (fst (process_message (\<lambda>_. None) \<lparr>resp_used_subprotocol = False, body = Map.empty\<rparr> (initial_device 3))) ''SCREEN_DISPLAY''
       = Some (VBool False)"
proof -
  have p: "\<not> truthy (attr (attributes (snd (process_message (\<lambda>_. None) \<lparr>resp_used_subprotocol = False, body = Map.empty\<rparr>
      (initial_device 3)))) ''POWER'')"
    by code_simp
  from power_off_corrections [of "\<lambda>_. None" "\<lparr>resp_used_subprotocol = False, body = Map.empty\<rparr>" "initial_device 3"
      "fst (process_message (\<lambda>_. None) \<lparr>resp_used_subprotocol = False, body = Map.empty\<rparr> (initial_device 3))"
      "snd (process_message (\<lambda>_. None) \<lparr>resp_used_subprotocol = False, body = Map.empty\<rparr> (initial_device 3))"] p
  show ?thesis by simp
qed

section \<open>Merging the fields of a response\<close>

text \<open>
  Claim C1. The claim asks that a carried field overwrites the stored attribute and is
  recorded in the change-set for every carried value, false and 0 included. The loop
  tests the carried value for truthiness: on a device whose stored POWER is true and
  FAN_SPEED is 102, a response that carries POWER = false and FAN_SPEED = 0 leaves both
  stored values as they were and returns an empty change-set.
\<close>

theorem falsy_values_not_merged:
  "attr (attributes (snd (process_message (\<lambda>_. None)
        \<lparr>resp_used_subprotocol = False,
         body = [''POWER'' \<mapsto> VBool False, ''FAN_SPEED'' \<mapsto> VNum 0]\<rparr>
        ((initial_device 3)\<lparr>attributes :=
           AList.update ''POWER'' (VBool True) initial_attributes\<rparr>)))) ''POWER'' = VBool True
   \<and> attr (attributes (snd (process_message (\<lambda>_. None)
        \<lparr>resp_used_subprotocol = False,
         body = [''POWER'' \<mapsto> VBool False, ''FAN_SPEED'' \<mapsto> VNum 0]\<rparr>
        ((initial_device 3)\<lparr>attributes :=
           AList.update ''POWER'' (VBool True) initial_attributes\<rparr>)))) ''FAN_SPEED'' = VNum 102
   \<and> fst (process_message (\<lambda>_. None)
        \<lparr>resp_used_subprotocol = False,
         body = [''POWER'' \<mapsto> VBool False, ''FAN_SPEED'' \<mapsto> VNum 0]\<rparr>
        ((initial_device 3)\<lparr>attributes :=
           AList.update ''POWER'' (VBool True) initial_attributes\<rparr>)) = []"
  by code_simp

section \<open>The derived fresh-air mode\<close>








section \<open>The sub-protocol lock\<close>













end
